theory Spec2Isabelle
  imports Complex_Main
begin

section \<open>Host-language values\<close>

text \<open>
  The server actions of \<^verbatim>\<open>app/lib/actions/poll-actions.ts\<close> are embedded as HOL
  functions. A JavaScript string is a sequence of code units; the model writes it as a
  HOL \<open>string\<close>. The only code units the actions inspect are ASCII (the five escaped
  characters, the comma of \<^verbatim>\<open>ADMIN_EMAILS\<close>, white space, hexadecimal digits); every
  other unit is passed through unchanged.

  A JavaScript \<^verbatim>\<open>number\<close> is a double: not-a-number, one of the two infinities, or a
  finite value. The finite values are written as rationals; the actions only test
  them for integrality and compare them.
\<close>

datatype number = NaN | PosInfinity | NegInfinity | Finite rat

text \<open>\<^verbatim>\<open>Number.isInteger\<close>: false for NaN and the infinities.\<close>

fun isInteger :: "number \<Rightarrow> bool" where
  "isInteger (Finite r) = (of_int \<lfloor>r\<rfloor> = r)"
| "isInteger _ = False"

text \<open>The comparisons \<^verbatim>\<open>x < y\<close> and \<^verbatim>\<open>x >= y\<close> of a number with a finite value;
  every comparison with NaN is false.\<close>

fun number_less :: "number \<Rightarrow> rat \<Rightarrow> bool" where
  "number_less (Finite r) y = (r < y)"
| "number_less NegInfinity y = True"
| "number_less PosInfinity y = False"
| "number_less NaN y = False"

fun number_ge :: "number \<Rightarrow> rat \<Rightarrow> bool" where
  "number_ge (Finite r) y = (y \<le> r)"
| "number_ge PosInfinity y = True"
| "number_ge NegInfinity y = False"
| "number_ge NaN y = False"

text \<open>\<^verbatim>\<open>String.prototype.replace(/c/g, r)\<close> for a one-character pattern: every
  occurrence of \<open>c\<close> is replaced by \<open>r\<close>, left to right, the replacement is not
  rescanned.\<close>

fun replaceAll :: "char \<Rightarrow> string \<Rightarrow> string \<Rightarrow> string" where
  "replaceAll c r [] = []"
| "replaceAll c r (x # xs) = (if x = c then r @ replaceAll c r xs else x # replaceAll c r xs)"

text \<open>\<^verbatim>\<open>String.prototype.trim\<close>: white space and line terminators are removed from both
  ends (among the 8-bit units: tab, line feed, vertical tab, form feed, carriage return,
  space, no-break space).\<close>

definition isWhiteSpace :: "char \<Rightarrow> bool" where
  "isWhiteSpace c = (of_char c \<in> {9, 10, 11, 12, 13, 32, 160 :: nat})"

definition trim :: "string \<Rightarrow> string" where
  "trim s = rev (dropWhile isWhiteSpace (rev (dropWhile isWhiteSpace s)))"

text \<open>\<^verbatim>\<open>String.prototype.split(",")\<close>: the pieces between the separators; the empty
  string splits into one empty piece.\<close>

fun split :: "char \<Rightarrow> string \<Rightarrow> string list" where
  "split c [] = [[]]"
| "split c (x # xs) =
     (if x = c then [] # split c xs
      else (case split c xs of [] \<Rightarrow> [[x]] | y # ys \<Rightarrow> (x # y) # ys))"

section \<open>The sanitizer\<close>

text \<open>
  \<^verbatim>\<open>
  function sanitizeHtml(input: string): string {
    return input
      .replace(/</g, "&lt;")
      .replace(/>/g, "&gt;")
      .replace(/"/g, "&quot;")
      .replace(/'/g, "&#x27;")
      .replace(/\//g, "&#x2F;");
  }
  \<close>
\<close>

definition sanitizeHtml :: "string \<Rightarrow> string" where
  "sanitizeHtml input =
     replaceAll (CHR ''/'') ''&#x2F;''
       (replaceAll (CHR 0x27) ''&#x27;''
         (replaceAll (CHR 0x22) ''&quot;''
           (replaceAll (CHR ''>'') ''&gt;''
             (replaceAll (CHR ''<'') ''&lt;'' input))))"

text \<open>The five characters the sanitizer escapes.\<close>

definition unsafeChars :: "char set" where
  "unsafeChars = {CHR ''<'', CHR ''>'', CHR 0x22, CHR 0x27, CHR ''/''}"

section \<open>Schema validation\<close>

text \<open>
  \<^verbatim>\<open>
  const pollSchema = z.object({
    question: z.string().min(1, "Question is required")
      .max(500, "Question must be less than 500 characters").trim(),
    options: z.array(z.string().min(1).max(200).trim())
      .min(2, "At least 2 options are required")
      .max(10, "Maximum 10 options allowed"),
  });
  const voteSchema = z.object({
    pollId: z.string().uuid("Invalid poll ID"),
    optionIndex: z.number().int().min(0),
  });
  \<close>
  The validation library is a collaborator of the actions. Its contract, as the actions
  use it: the keys of an object are parsed in the order of the schema, the checks of a
  value run in the order they are chained (so the length checks see the string before
  \<^verbatim>\<open>trim\<close>), an array's length checks run before its elements are parsed, every
  issue is collected, and \<^verbatim>\<open>error.errors\<close> lists the issues in that order. A check
  without a message of the schema's reports the library's default message. Each parser
  below returns the issues' messages and the parsed output.
\<close>

definition zod_question :: "string option \<Rightarrow> string list \<times> string" where
  "zod_question q =
     (case q of
        None \<Rightarrow> ([''Expected string, received null''], [])
      | Some s \<Rightarrow>
          ((if length s < 1 then [''Question is required''] else []) @
           (if length s > 500 then [''Question must be less than 500 characters''] else []),
           trim s))"

definition zod_option :: "string \<Rightarrow> string list \<times> string" where
  "zod_option s =
     ((if length s < 1 then [''String must contain at least 1 character(s)''] else []) @
      (if length s > 200 then [''String must contain at most 200 character(s)''] else []),
      trim s)"

definition zod_options :: "string list \<Rightarrow> string list \<times> string list" where
  "zod_options os =
     ((if length os < 2 then [''At least 2 options are required''] else []) @
      (if length os > 10 then [''Maximum 10 options allowed''] else []) @
      concat (map (\<lambda>s. fst (zod_option s)) os),
      map (\<lambda>s. snd (zod_option s)) os)"

text \<open>\<^verbatim>\<open>pollSchema.safeParse({question, options})\<close>: \<open>Inl\<close> the messages of
  \<^verbatim>\<open>error.errors\<close> (never empty), \<open>Inr\<close> the parsed data.\<close>

definition pollSchema_safeParse ::
    "string option \<Rightarrow> string list \<Rightarrow> string list + (string \<times> string list)" where
  "pollSchema_safeParse question options =
     (case fst (zod_question question) @ fst (zod_options options) of
        [] \<Rightarrow> Inr (snd (zod_question question), snd (zod_options options))
      | e # es \<Rightarrow> Inl (e # es))"

definition isHexDigit :: "char \<Rightarrow> bool" where
  "isHexDigit c = (c \<in> set ''0123456789abcdefABCDEF'')"

text \<open>The syntactic UUID test of \<^verbatim>\<open>z.string().uuid\<close>: five groups of 8, 4, 4, 4 and
  12 hexadecimal digits separated by hyphens.\<close>

definition isUuid :: "string \<Rightarrow> bool" where
  "isUuid s =
     (map length (split (CHR ''-'') s) = [8, 4, 4, 4, 12] \<and>
      list_all (list_all isHexDigit) (split (CHR ''-'') s))"

definition zod_pollId :: "string \<Rightarrow> string list" where
  "zod_pollId pollId = (if isUuid pollId then [] else [''Invalid poll ID''])"

definition zod_optionIndex :: "number \<Rightarrow> string list" where
  "zod_optionIndex n =
     (if n = NaN then [''Expected number, received nan'']
      else (if isInteger n then [] else [''Expected integer, received float'']) @
           (if number_less n 0 then [''Number must be greater than or equal to 0''] else []))"

text \<open>\<^verbatim>\<open>voteSchema.safeParse({pollId, optionIndex})\<close>.\<close>

definition voteSchema_safeParse :: "string \<Rightarrow> number \<Rightarrow> string list + (string \<times> number)" where
  "voteSchema_safeParse pollId optionIndex =
     (case zod_pollId pollId @ zod_optionIndex optionIndex of
        [] \<Rightarrow> Inr (pollId, optionIndex)
      | e # es \<Rightarrow> Inl (e # es))"

section \<open>Form data\<close>

text \<open>A \<^verbatim>\<open>FormData\<close> of text fields: its entries in order. \<^verbatim>\<open>get\<close> is the first
  value of a name or \<^verbatim>\<open>null\<close>, \<^verbatim>\<open>getAll\<close> every value of the name.
  \<^verbatim>\<open>.filter(Boolean)\<close> drops the empty strings.\<close>

type_synonym formData = "(string \<times> string) list"

definition formData_get :: "formData \<Rightarrow> string \<Rightarrow> string option" where
  "formData_get fd name = map_of fd name"

definition formData_getAll :: "formData \<Rightarrow> string \<Rightarrow> string list" where
  "formData_getAll fd name = map snd (filter (\<lambda>entry. fst entry = name) fd)"

definition filterBoolean :: "string list \<Rightarrow> string list" where
  "filterBoolean xs = filter (\<lambda>s. s \<noteq> []) xs"

section \<open>The collaborators: session, configuration, store\<close>

record user =
  user_id :: string
  user_email :: "string option"

text \<open>What \<^verbatim>\<open>supabase.auth.getUser()\<close> resolves to: \<^verbatim>\<open>data.user\<close> (or
  \<^verbatim>\<open>null\<close>) and \<^verbatim>\<open>error\<close> (its message, or \<^verbatim>\<open>null\<close>).\<close>

record authResponse =
  auth_user :: "user option"
  auth_error :: "string option"

record storeError =
  error_message :: string
  error_code :: string

record poll =
  poll_id :: string
  poll_user_id :: string
  poll_question :: string
  poll_options :: "string list"

record vote =
  vote_poll_id :: string
  vote_user_id :: "string option"
  vote_option_index :: number

text \<open>The requests the actions send to their collaborators, with their arguments:
  the two \<^verbatim>\<open>select(...).single()\<close> queries, the two inserts, the update and the delete
  with their filters, and the listing invalidation \<^verbatim>\<open>revalidatePath\<close>.\<close>

datatype call =
    SelectPoll string
  | SelectVote string string
  | InsertPoll string string "string list"
  | InsertVote string "string option" number
  | UpdatePoll string string string "string list"
  | DeletePoll string
  | RevalidatePath string

text \<open>
  Modelled from the spec: the collaborators of section 6, which are not code of the
  repository. The session provider answers with \<open>session\<close>; the configuration provider
  holds the environment variable \<^verbatim>\<open>ADMIN_EMAILS\<close> (or nothing); the persistence store
  holds the rows of \<^verbatim>\<open>polls\<close> and \<^verbatim>\<open>votes\<close>, answers a filtered query, assigns
  the identifier of a new poll (\<open>newPollId\<close>), and can fail any request with an error
  of its own (\<open>failure\<close>). \<open>requests\<close> records every request sent, in order.
\<close>

record world =
  session :: authResponse
  env_ADMIN_EMAILS :: "string option"
  polls :: "poll list"
  votes :: "vote list"
  failure :: "call \<Rightarrow> storeError option"
  newPollId :: "nat \<Rightarrow> string"
  requests :: "call list"

definition send :: "call \<Rightarrow> world \<Rightarrow> world" where
  "send c w = w\<lparr>requests := requests w @ [c]\<rparr>"

text \<open>\<^verbatim>\<open>.single()\<close>: the row when exactly one row matches, an error otherwise.\<close>

definition noSingleRow :: storeError where
  "noSingleRow =
     \<lparr>error_message = ''JSON object requested, multiple (or no) rows returned'',
      error_code = ''PGRST116''\<rparr>"

definition single :: "'a list \<Rightarrow> storeError + 'a" where
  "single rows = (case rows of [r] \<Rightarrow> Inr r | _ \<Rightarrow> Inl noSingleRow)"

definition selectPoll :: "string \<Rightarrow> world \<Rightarrow> (storeError + poll) \<times> world" where
  "selectPoll pollId w =
     (case failure w (SelectPoll pollId) of
        Some e \<Rightarrow> (Inl e, send (SelectPoll pollId) w)
      | None \<Rightarrow>
          (single (filter (\<lambda>r. poll_id r = pollId) (polls w)), send (SelectPoll pollId) w))"

definition selectVote :: "string \<Rightarrow> string \<Rightarrow> world \<Rightarrow> (storeError + vote) \<times> world" where
  "selectVote pollId userId w =
     (case failure w (SelectVote pollId userId) of
        Some e \<Rightarrow> (Inl e, send (SelectVote pollId userId) w)
      | None \<Rightarrow>
          (single (filter (\<lambda>v. vote_poll_id v = pollId \<and> vote_user_id v = Some userId) (votes w)),
           send (SelectVote pollId userId) w))"

definition insertPoll ::
    "string \<Rightarrow> string \<Rightarrow> string list \<Rightarrow> world \<Rightarrow> storeError option \<times> world" where
  "insertPoll userId question options w =
     (case failure w (InsertPoll userId question options) of
        Some e \<Rightarrow> (Some e, send (InsertPoll userId question options) w)
      | None \<Rightarrow>
          (None,
           send (InsertPoll userId question options)
             (w\<lparr>polls := polls w @
                  [\<lparr>poll_id = newPollId w (length (polls w)), poll_user_id = userId,
                    poll_question = question, poll_options = options\<rparr>]\<rparr>)))"

text \<open>The uniqueness constraint of the store: a second row with the same poll and the
  same non-null voter is refused with the error code 23505.\<close>

definition uniqueViolation :: storeError where
  "uniqueViolation =
     \<lparr>error_message = ''duplicate key value violates unique constraint'',
      error_code = ''23505''\<rparr>"

definition insertVote ::
    "string \<Rightarrow> string option \<Rightarrow> number \<Rightarrow> world \<Rightarrow> storeError option \<times> world" where
  "insertVote pollId userId optionIndex w =
     (case failure w (InsertVote pollId userId optionIndex) of
        Some e \<Rightarrow> (Some e, send (InsertVote pollId userId optionIndex) w)
      | None \<Rightarrow>
          if userId \<noteq> None \<and>
             list_ex (\<lambda>v. vote_poll_id v = pollId \<and> vote_user_id v = userId) (votes w)
          then (Some uniqueViolation, send (InsertVote pollId userId optionIndex) w)
          else
            (None,
             send (InsertVote pollId userId optionIndex)
               (w\<lparr>votes := votes w @
                    [\<lparr>vote_poll_id = pollId, vote_user_id = userId,
                      vote_option_index = optionIndex\<rparr>]\<rparr>)))"

text \<open>\<^verbatim>\<open>update({question, options}).eq("id", pollId).eq("user_id", userId)\<close>: the rows
  that pass both filters are rewritten; no matching row is not an error.\<close>

definition updatePolls ::
    "string \<Rightarrow> string \<Rightarrow> string \<Rightarrow> string list \<Rightarrow> world \<Rightarrow> storeError option \<times> world" where
  "updatePolls pollId userId question options w =
     (case failure w (UpdatePoll pollId userId question options) of
        Some e \<Rightarrow> (Some e, send (UpdatePoll pollId userId question options) w)
      | None \<Rightarrow>
          (None,
           send (UpdatePoll pollId userId question options)
             (w\<lparr>polls :=
                  map (\<lambda>r. if poll_id r = pollId \<and> poll_user_id r = userId
                            then r\<lparr>poll_question := question, poll_options := options\<rparr>
                            else r)
                    (polls w)\<rparr>)))"

text \<open>\<^verbatim>\<open>delete().eq("id", id)\<close>.\<close>

definition deletePolls :: "string \<Rightarrow> world \<Rightarrow> storeError option \<times> world" where
  "deletePolls pollId w =
     (case failure w (DeletePoll pollId) of
        Some e \<Rightarrow> (Some e, send (DeletePoll pollId) w)
      | None \<Rightarrow>
          (None,
           send (DeletePoll pollId) (w\<lparr>polls := filter (\<lambda>r. poll_id r \<noteq> pollId) (polls w)\<rparr>)))"

definition revalidatePath :: "string \<Rightarrow> world \<Rightarrow> world" where
  "revalidatePath path w = send (RevalidatePath path) w"

section \<open>The actions\<close>

text \<open>Every action returns the \<^verbatim>\<open>error\<close> field of its result (\<open>None\<close> for
  \<^verbatim>\<open>null\<close>) and the world it leaves.\<close>

definition createPoll :: "formData \<Rightarrow> world \<Rightarrow> string option \<times> world" where
  "createPoll formData w =
     (let rawQuestion = formData_get formData ''question'';
          rawOptions = filterBoolean (formData_getAll formData ''options'')
      in case pollSchema_safeParse rawQuestion rawOptions of
           Inl errors \<Rightarrow> (Some (hd errors), w)
         | Inr (validQuestion, validOptions) \<Rightarrow>
             let sanitizedQuestion = sanitizeHtml validQuestion;
                 sanitizedOptions = map sanitizeHtml validOptions
             in (case auth_error (session w) of
                   Some userError \<Rightarrow> (Some userError, w)
                 | None \<Rightarrow>
                     (case auth_user (session w) of
                        None \<Rightarrow> (Some ''You must be logged in to create a poll.'', w)
                      | Some user \<Rightarrow>
                          (case insertPoll (user_id user) sanitizedQuestion sanitizedOptions w of
                             (Some error, w') \<Rightarrow> (Some (error_message error), w')
                           | (None, w') \<Rightarrow> (None, revalidatePath ''/polls'' w')))))"

text \<open>\<^verbatim>\<open>submitVote\<close> reads only \<^verbatim>\<open>data.user\<close> of the session lookup.\<close>

definition submitVote :: "string \<Rightarrow> number \<Rightarrow> world \<Rightarrow> string option \<times> world" where
  "submitVote pollId optionIndex w =
     (case voteSchema_safeParse pollId optionIndex of
        Inl errors \<Rightarrow> (Some (hd errors), w)
      | Inr validated \<Rightarrow>
          (let user = auth_user (session w)
           in (case selectPoll pollId w of
                 (Inl pollError, w1) \<Rightarrow> (Some ''Poll not found.'', w1)
               | (Inr poll, w1) \<Rightarrow>
                   if number_less optionIndex 0 \<or>
                      number_ge optionIndex (of_nat (length (poll_options poll)))
                   then (Some ''Invalid option selected.'', w1)
                   else
                     (let (existingVote, w2) =
                            (case user of
                               None \<Rightarrow> (False, w1)
                             | Some u \<Rightarrow>
                                 (case selectVote pollId (user_id u) w1 of
                                    (Inl voteError, w') \<Rightarrow> (False, w')
                                  | (Inr found, w') \<Rightarrow> (True, w')))
                      in if existingVote
                         then (Some ''You have already voted on this poll.'', w2)
                         else
                           (case insertVote pollId (map_option user_id user) optionIndex w2 of
                              (Some error, w3) \<Rightarrow>
                                if error_code error = ''23505''
                                then (Some ''You have already voted on this poll.'', w3)
                                else (Some (error_message error), w3)
                            | (None, w3) \<Rightarrow> (None, w3))))))"

text \<open>\<^verbatim>\<open>process.env.ADMIN_EMAILS?.split(",") || ["admin@example.com",
  "admin@alx-polly.com"]\<close>: the fallback pair is used only when the variable is unset
  (a split never gives an empty array).\<close>

definition ADMIN_EMAILS :: "world \<Rightarrow> string list" where
  "ADMIN_EMAILS w =
     (case env_ADMIN_EMAILS w of
        None \<Rightarrow> [''admin@example.com'', ''admin@alx-polly.com'']
      | Some s \<Rightarrow> split (CHR '','') s)"

text \<open>\<^verbatim>\<open>user.email || ""\<close>.\<close>

definition emailOrEmpty :: "user \<Rightarrow> string" where
  "emailOrEmpty u = (case user_email u of None \<Rightarrow> [] | Some e \<Rightarrow> e)"

definition isAdmin :: "world \<Rightarrow> user \<Rightarrow> bool" where
  "isAdmin w u = (emailOrEmpty u \<in> set (ADMIN_EMAILS w))"

definition deletePoll :: "string \<Rightarrow> world \<Rightarrow> string option \<times> world" where
  "deletePoll id' w =
     (case auth_error (session w) of
        Some userError \<Rightarrow> (Some userError, w)
      | None \<Rightarrow>
          (case auth_user (session w) of
             None \<Rightarrow> (Some ''You must be logged in to delete a poll.'', w)
           | Some user \<Rightarrow>
               (case selectPoll id' w of
                  (Inl fetchError, w1) \<Rightarrow> (Some ''Poll not found.'', w1)
                | (Inr poll, w1) \<Rightarrow>
                    if poll_user_id poll \<noteq> user_id user \<and> \<not> isAdmin w1 user
                    then (Some ''You can only delete your own polls.'', w1)
                    else
                      (case deletePolls id' w1 of
                         (Some error, w2) \<Rightarrow> (Some (error_message error), w2)
                       | (None, w2) \<Rightarrow> (None, revalidatePath ''/polls'' w2)))))"

text \<open>\<^verbatim>\<open>updatePoll\<close> checks only that the question is not empty and that two options
  are left; it does not call the schema or the sanitizer.\<close>

definition updatePoll :: "string \<Rightarrow> formData \<Rightarrow> world \<Rightarrow> string option \<times> world" where
  "updatePoll pollId formData w =
     (let question = formData_get formData ''question'';
          options = filterBoolean (formData_getAll formData ''options'')
      in case question of
           None \<Rightarrow> (Some ''Please provide a question and at least two options.'', w)
         | Some q \<Rightarrow>
             if q = [] \<or> length options < 2
             then (Some ''Please provide a question and at least two options.'', w)
             else
               (case auth_error (session w) of
                  Some userError \<Rightarrow> (Some userError, w)
                | None \<Rightarrow>
                    (case auth_user (session w) of
                       None \<Rightarrow> (Some ''You must be logged in to update a poll.'', w)
                     | Some user \<Rightarrow>
                         (case updatePolls pollId (user_id user) q options w of
                            (Some error, w') \<Rightarrow> (Some (error_message error), w')
                          | (None, w') \<Rightarrow> (None, w')))))"

section \<open>Example worlds\<close>

text \<open>Concrete identities, a poll and a store, on which the theorems below are
  instantiated. No request fails in the example store; \<^verbatim>\<open>ADMIN_EMAILS\<close> is set as
  the test setup sets it.\<close>

definition signedIn :: "user \<Rightarrow> authResponse" where
  "signedIn u = \<lparr>auth_user = Some u, auth_error = None\<rparr>"

definition lookupFailed :: "string \<Rightarrow> authResponse" where
  "lookupFailed msg = \<lparr>auth_user = None, auth_error = Some msg\<rparr>"

definition owner :: user where
  "owner = \<lparr>user_id = ''user123'', user_email = Some ''test@example.com''\<rparr>"

definition stranger :: user where
  "stranger = \<lparr>user_id = ''user456'', user_email = Some ''notowner@example.com''\<rparr>"

definition administrator :: user where
  "administrator = \<lparr>user_id = ''admin123'', user_email = Some ''admin@example.com''\<rparr>"

definition examplePollId :: string where
  "examplePollId = ''123e4567-e89b-12d3-a456-426614174000''"

definition examplePoll :: poll where
  "examplePoll =
     \<lparr>poll_id = examplePollId, poll_user_id = ''user123'',
      poll_question = ''Tea or coffee?'', poll_options = [''Tea'', ''Coffee'']\<rparr>"

definition exampleWorld :: "authResponse \<Rightarrow> vote list \<Rightarrow> world" where
  "exampleWorld s vs =
     \<lparr>session = s,
      env_ADMIN_EMAILS = Some ''admin@example.com,admin@alx-polly.com'',
      polls = [examplePoll],
      votes = vs,
      failure = (\<lambda>c. None),
      newPollId = (\<lambda>n. ''9b2d6f10-3c4e-4a1b-8f00-000000000000''),
      requests = []\<rparr>"

definition ownersVote :: vote where
  "ownersVote =
     \<lparr>vote_poll_id = examplePollId, vote_user_id = Some ''user123'',
      vote_option_index = Finite 0\<rparr>"

definition markupForm :: formData where
  "markupForm = [(''question'', ''<b>Tea</b> or coffee?''), (''options'', ''Tea''), (''options'', ''Coffee'')]"

definition longForm :: formData where
  "longForm = [(''question'', replicate 501 (CHR ''a'')), (''options'', ''Tea''), (''options'', ''Coffee'')]"

text \<open>Two stores that fail: one whose vote query is down, and one that answers every
  vote insert with a uniqueness violation, as it does when a concurrent request has
  recorded the voter's vote after the action's query.\<close>

definition voteQueryDown :: "world \<Rightarrow> world" where
  "voteQueryDown w =
     w\<lparr>failure :=
         (\<lambda>c. case c of
                SelectVote p u \<Rightarrow> Some \<lparr>error_message = ''connection lost'', error_code = ''08006''\<rparr>
              | _ \<Rightarrow> None)\<rparr>"

definition concurrentVote :: "world \<Rightarrow> world" where
  "concurrentVote w =
     w\<lparr>failure := (\<lambda>c. case c of InsertVote p u n \<Rightarrow> Some uniqueViolation | _ \<Rightarrow> None)\<rparr>"

section \<open>Properties of the sanitizer\<close>

lemma set_replaceAll:
  "set (replaceAll c r s) = (set s - {c}) \<union> (if c \<in> set s then set r else {})"
  by (induction s) auto

lemma replaceAll_absent: "c \<notin> set s \<Longrightarrow> replaceAll c r s = s"
  by (induction s) auto

lemma sanitizeHtml_no_unsafe: "set (sanitizeHtml s) \<inter> unsafeChars = {}"
  unfolding sanitizeHtml_def unsafeChars_def set_replaceAll
  by auto

lemma sanitizeHtml_fixed: "set s \<inter> unsafeChars = {} \<Longrightarrow> sanitizeHtml s = s"
  unfolding sanitizeHtml_def unsafeChars_def
  by (simp add: replaceAll_absent)

section \<open>Unfolding rules and facts about the store\<close>

lemmas example_defs = exampleWorld_def examplePoll_def examplePollId_def signedIn_def
  lookupFailed_def owner_def stranger_def administrator_def ownersVote_def markupForm_def
  longForm_def

lemmas store_defs = selectPoll_def selectVote_def insertPoll_def insertVote_def
  updatePolls_def deletePolls_def revalidatePath_def send_def single_def

lemmas zod_defs = voteSchema_safeParse_def zod_pollId_def zod_optionIndex_def
  pollSchema_safeParse_def zod_question_def zod_options_def zod_option_def

lemmas form_defs = formData_get_def formData_getAll_def filterBoolean_def

lemma selectPoll_found:
  "failure w (SelectPoll pollId) = None \<Longrightarrow>
   filter (\<lambda>r. poll_id r = pollId) (polls w) = [p] \<Longrightarrow>
   selectPoll pollId w = (Inr p, send (SelectPoll pollId) w)"
  by (simp add: selectPoll_def single_def)

lemma selectPoll_absent:
  "\<forall>r \<in> set (polls w). poll_id r \<noteq> pollId \<Longrightarrow>
   \<exists>e. selectPoll pollId w = (Inl e, send (SelectPoll pollId) w)"
  by (cases "failure w (SelectPoll pollId)")
     (auto simp: selectPoll_def single_def filter_empty_conv[THEN iffD2])

lemma selectVote_requests:
  "snd (selectVote pollId userId w) = send (SelectVote pollId userId) w"
  by (simp add: selectVote_def split: option.splits)

lemma insertVote_duplicate:
  assumes "\<exists>v \<in> set (votes w). vote_poll_id v = pollId \<and> vote_user_id v = Some userId"
  shows "insertVote pollId (Some userId) n w =
           (Some (case failure w (InsertVote pollId (Some userId) n) of
                    None \<Rightarrow> uniqueViolation | Some e \<Rightarrow> e),
            send (InsertVote pollId (Some userId) n) w)"
  using assms by (auto simp: insertVote_def list_ex_iff split: option.splits)

lemma number_ge_not_less: "number_ge n (of_nat k) \<Longrightarrow> \<not> number_less n 0"
  by (cases n) auto

lemma voteSchema_valid:
  "isUuid pollId \<Longrightarrow> isInteger n \<Longrightarrow> \<not> number_less n 0 \<Longrightarrow>
   voteSchema_safeParse pollId n = Inr (pollId, n)"
  by (cases n) (auto simp: zod_defs)

lemma map_unchanged: "\<forall>x \<in> set xs. f x = x \<Longrightarrow> map f xs = xs"
  by (induction xs) auto

lemma isUuid_examplePollId: "isUuid examplePollId"
  by (simp add: isUuid_def isHexDigit_def examplePollId_def)

section \<open>Deleting a poll: owner, administrator, anyone else\<close>

text \<open>The allow-list test \<^verbatim>\<open>ADMIN_EMAILS.includes(user.email || "")\<close>: for an
  identity with an email it is membership of that email; an identity without one is
  compared as the empty string.\<close>

lemma isAdmin_with_email: "user_email u = Some e \<Longrightarrow> isAdmin w u = (e \<in> set (ADMIN_EMAILS w))"
  by (simp add: isAdmin_def emailOrEmpty_def)

lemma isAdmin_without_email: "user_email u = None \<Longrightarrow> isAdmin w u = ([] \<in> set (ADMIN_EMAILS w))"
  by (simp add: isAdmin_def emailOrEmpty_def)

text \<open>
  Claim C1: for every delete request by an authenticated identity on an existing poll
  (the ownership fetch finds exactly the row \<open>p\<close>): if the identity's id is the poll's
  owner id, or else if the identity's email is a member of the admin allow-list, the
  delete is allowed, that is, it is sent to the store, and the result is the store's
  answer: no error and the row gone, unless the store itself fails the delete.
  Otherwise \<^verbatim>\<open>deletePoll\<close> returns "You can only delete your own polls." and no
  delete is sent: the ownership fetch is the only request and the rows are as they
  were. Membership is \<open>isAdmin\<close>, the code's
  \<^verbatim>\<open>ADMIN_EMAILS.includes(user.email || "")\<close>.
\<close>

theorem deletePoll_authorization:
  assumes "auth_error (session w) = None" and "auth_user (session w) = Some u"
    and "failure w (SelectPoll pollId) = None"
    and "filter (\<lambda>r. poll_id r = pollId) (polls w) = [p]"
  shows "(poll_user_id p = user_id u \<or> isAdmin w u \<longrightarrow>
            fst (deletePoll pollId w) =
              map_option error_message (failure w (DeletePoll pollId)) \<and>
            requests (snd (deletePoll pollId w)) =
              requests w @ [SelectPoll pollId, DeletePoll pollId] @
                (if failure w (DeletePoll pollId) = None then [RevalidatePath ''/polls'']
                 else []) \<and>
            polls (snd (deletePoll pollId w)) =
              (if failure w (DeletePoll pollId) = None
               then filter (\<lambda>r. poll_id r \<noteq> pollId) (polls w) else polls w)) \<and>
         (poll_user_id p \<noteq> user_id u \<and> \<not> isAdmin w u \<longrightarrow>
            fst (deletePoll pollId w) = Some ''You can only delete your own polls.'' \<and>
            requests (snd (deletePoll pollId w)) = requests w @ [SelectPoll pollId] \<and>
            polls (snd (deletePoll pollId w)) = polls w)"
proof -
  have fetch: "selectPoll pollId w = (Inr p, send (SelectPoll pollId) w)"
    using assms(3,4) by (rule selectPoll_found)
  have admin: "isAdmin (send (SelectPoll pollId) w) u = isAdmin w u"
    by (simp add: isAdmin_def ADMIN_EMAILS_def send_def)
  show ?thesis
    using assms(1,2) fetch admin
    by (cases "failure w (DeletePoll pollId)")
       (auto simp: deletePoll_def deletePolls_def revalidatePath_def send_def)
qed

theorem deletePoll_authorization_witness:
  "fst (deletePoll examplePollId (exampleWorld (signedIn owner) [])) = None \<and>
   requests (snd (deletePoll examplePollId (exampleWorld (signedIn owner) []))) =
     [SelectPoll examplePollId, DeletePoll examplePollId, RevalidatePath ''/polls''] \<and>
   polls (snd (deletePoll examplePollId (exampleWorld (signedIn owner) []))) = [] \<and>
   isAdmin (exampleWorld (signedIn administrator) []) administrator \<and>
   poll_user_id examplePoll \<noteq> user_id administrator \<and>
   fst (deletePoll examplePollId (exampleWorld (signedIn administrator) [])) = None \<and>
   polls (snd (deletePoll examplePollId (exampleWorld (signedIn administrator) []))) = [] \<and>
   \<not> isAdmin (exampleWorld (signedIn stranger) []) stranger \<and>
   poll_user_id examplePoll \<noteq> user_id stranger \<and>
   fst (deletePoll examplePollId (exampleWorld (signedIn stranger) [])) =
     Some ''You can only delete your own polls.'' \<and>
   requests (snd (deletePoll examplePollId (exampleWorld (signedIn stranger) []))) =
     [SelectPoll examplePollId] \<and>
   polls (snd (deletePoll examplePollId (exampleWorld (signedIn stranger) []))) =
     [examplePoll]"
proof -
  have a: "isAdmin (exampleWorld (signedIn administrator) []) administrator"
    by (simp add: isAdmin_def ADMIN_EMAILS_def emailOrEmpty_def example_defs)
  have s: "\<not> isAdmin (exampleWorld (signedIn stranger) []) stranger"
    by (simp add: isAdmin_def ADMIN_EMAILS_def emailOrEmpty_def example_defs)
  show ?thesis
    using a s
      deletePoll_authorization
        [of "exampleWorld (signedIn owner) []" owner examplePollId examplePoll]
      deletePoll_authorization
        [of "exampleWorld (signedIn administrator) []" administrator examplePollId examplePoll]
      deletePoll_authorization
        [of "exampleWorld (signedIn stranger) []" stranger examplePollId examplePoll]
    by (simp add: example_defs)
qed

section \<open>A second vote by the same identity\<close>

text \<open>
  Claim C2: for every authenticated identity that already has a vote recorded on a
  poll, a second \<^verbatim>\<open>submitVote\<close> by that identity on that poll (an otherwise valid
  request: the identifier is a UUID, the poll exists, the index is an integer within
  the options) returns "You have already voted on this poll." and no second vote row
  is written. The message is the same on both paths: when the query before the insert
  finds the vote, no insert is sent; when the query misses it (the query fails, or does
  not find exactly one row), the insert is sent and the store's uniqueness constraint
  refuses it. The one proviso is that the store does not fail the insert with an
  unrelated error of its own, whose message the code returns instead.
\<close>

theorem submitVote_duplicate:
  assumes user: "auth_user (session w) = Some u"
    and valid: "isUuid pollId" "isInteger optionIndex"
    and poll: "failure w (SelectPoll pollId) = None"
      "filter (\<lambda>r. poll_id r = pollId) (polls w) = [p]"
    and range: "\<not> number_less optionIndex 0"
      "\<not> number_ge optionIndex (of_nat (length (poll_options p)))"
    and voted:
      "\<exists>v \<in> set (votes w). vote_poll_id v = pollId \<and> vote_user_id v = Some (user_id u)"
    and store:
      "case failure w (InsertVote pollId (Some (user_id u)) optionIndex) of
         None \<Rightarrow> True | Some e \<Rightarrow> error_code e = ''23505''"
  shows "fst (submitVote pollId optionIndex w) = Some ''You have already voted on this poll.'' \<and>
         votes (snd (submitVote pollId optionIndex w)) = votes w \<and>
         requests (snd (submitVote pollId optionIndex w)) =
           requests w @ [SelectPoll pollId, SelectVote pollId (user_id u)] @
             (case fst (selectVote pollId (user_id u) w) of
                Inr existing \<Rightarrow> []
              | Inl missed \<Rightarrow> [InsertVote pollId (Some (user_id u)) optionIndex])"
proof -
  let ?w1 = "send (SelectPoll pollId) w"
  let ?w2 = "send (SelectVote pollId (user_id u)) ?w1"
  have parse: "voteSchema_safeParse pollId optionIndex = Inr (pollId, optionIndex)"
    using valid range(1) by (rule voteSchema_valid)
  have fetch: "selectPoll pollId w = (Inr p, ?w1)"
    using poll by (rule selectPoll_found)
  have same: "fst (selectVote pollId (user_id u) ?w1) = fst (selectVote pollId (user_id u) w)"
    by (simp add: selectVote_def send_def split: option.splits)
  have voted2:
    "\<exists>v \<in> set (votes ?w2). vote_poll_id v = pollId \<and> vote_user_id v = Some (user_id u)"
    using voted by (simp add: send_def)
  have ins: "insertVote pollId (Some (user_id u)) optionIndex ?w2 =
      (Some (case failure w (InsertVote pollId (Some (user_id u)) optionIndex) of
               None \<Rightarrow> uniqueViolation | Some e \<Rightarrow> e),
       send (InsertVote pollId (Some (user_id u)) optionIndex) ?w2)"
    using insertVote_duplicate [OF voted2, of optionIndex] by (simp add: send_def)
  have code: "error_code (case failure w (InsertVote pollId (Some (user_id u)) optionIndex) of
               None \<Rightarrow> uniqueViolation | Some e \<Rightarrow> e) = ''23505''"
    using store by (simp add: uniqueViolation_def split: option.splits)
  show ?thesis
  proof (cases "fst (selectVote pollId (user_id u) w)")
    case (Inr existing)
    then have "selectVote pollId (user_id u) ?w1 = (Inr existing, ?w2)"
      using same selectVote_requests [of pollId "user_id u" ?w1] by (simp add: prod_eq_iff)
    then show ?thesis
      using user parse fetch range Inr by (simp add: submitVote_def send_def)
  next
    case (Inl missed)
    then have "selectVote pollId (user_id u) ?w1 = (Inl missed, ?w2)"
      using same selectVote_requests [of pollId "user_id u" ?w1] by (simp add: prod_eq_iff)
    then show ?thesis
      using user parse fetch range Inl ins code by (simp add: submitVote_def send_def)
  qed
qed

theorem submitVote_duplicate_witness:
  "fst (submitVote examplePollId (Finite 1) (exampleWorld (signedIn owner) [ownersVote])) =
     Some ''You have already voted on this poll.'' \<and>
   votes (snd (submitVote examplePollId (Finite 1)
     (exampleWorld (signedIn owner) [ownersVote]))) = [ownersVote] \<and>
   requests (snd (submitVote examplePollId (Finite 1)
     (exampleWorld (signedIn owner) [ownersVote]))) =
     [SelectPoll examplePollId, SelectVote examplePollId ''user123''] \<and>
   fst (submitVote examplePollId (Finite 1)
     (voteQueryDown (exampleWorld (signedIn owner) [ownersVote]))) =
     Some ''You have already voted on this poll.'' \<and>
   votes (snd (submitVote examplePollId (Finite 1)
     (voteQueryDown (exampleWorld (signedIn owner) [ownersVote])))) = [ownersVote] \<and>
   requests (snd (submitVote examplePollId (Finite 1)
     (voteQueryDown (exampleWorld (signedIn owner) [ownersVote])))) =
     [SelectPoll examplePollId, SelectVote examplePollId ''user123'',
      InsertVote examplePollId (Some ''user123'') (Finite 1)]"
  using isUuid_examplePollId
    submitVote_duplicate
      [of "exampleWorld (signedIn owner) [ownersVote]" owner examplePollId "Finite 1"
          examplePoll]
    submitVote_duplicate
      [of "voteQueryDown (exampleWorld (signedIn owner) [ownersVote])" owner examplePollId
          "Finite 1" examplePoll]
  by (simp add: example_defs voteQueryDown_def selectVote_def single_def)

text \<open>The race the code's comment names: the query finds no vote, and the store
  answers the insert with the uniqueness violation. The message is the same.\<close>

lemma submitVote_unique_violation:
  assumes "auth_user (session w) = Some u"
    and "isUuid pollId" "isInteger optionIndex"
    and "failure w (SelectPoll pollId) = None"
      "filter (\<lambda>r. poll_id r = pollId) (polls w) = [p]"
    and "\<not> number_less optionIndex 0"
      "\<not> number_ge optionIndex (of_nat (length (poll_options p)))"
    and "fst (selectVote pollId (user_id u) w) = Inl missed"
    and "failure w (InsertVote pollId (Some (user_id u)) optionIndex) = Some e"
    and "error_code e = ''23505''"
  shows "fst (submitVote pollId optionIndex w) = Some ''You have already voted on this poll.'' \<and>
         votes (snd (submitVote pollId optionIndex w)) = votes w"
proof -
  let ?w1 = "send (SelectPoll pollId) w"
  let ?w2 = "send (SelectVote pollId (user_id u)) ?w1"
  have parse: "voteSchema_safeParse pollId optionIndex = Inr (pollId, optionIndex)"
    using assms(2,3,6) by (rule voteSchema_valid)
  have fetch: "selectPoll pollId w = (Inr p, ?w1)"
    using assms(4,5) by (rule selectPoll_found)
  have "fst (selectVote pollId (user_id u) ?w1) = fst (selectVote pollId (user_id u) w)"
    by (simp add: selectVote_def send_def split: option.splits)
  then have query: "selectVote pollId (user_id u) ?w1 = (Inl missed, ?w2)"
    using assms(8) selectVote_requests [of pollId "user_id u" ?w1] by (simp add: prod_eq_iff)
  show ?thesis
    using assms(1,6,7,9,10) parse fetch query
    by (simp add: submitVote_def insertVote_def send_def)
qed

lemma submitVote_unique_violation_example:
  "fst (submitVote examplePollId (Finite 1) (concurrentVote (exampleWorld (signedIn owner) []))) =
     Some ''You have already voted on this poll.'' \<and>
   votes (snd (submitVote examplePollId (Finite 1)
     (concurrentVote (exampleWorld (signedIn owner) [])))) = []"
  by (simp add: submitVote_def zod_defs isUuid_def isHexDigit_def example_defs store_defs
        concurrentVote_def uniqueViolation_def noSingleRow_def)

section \<open>Markup in a question or an option\<close>

text \<open>\<^verbatim>\<open>createPoll\<close> sends the store only sanitized text: the question and every
  option of an insert it sends hold none of the five characters.\<close>

lemma createPoll_sanitizes:
  assumes "InsertPoll userId question options \<in> set (requests (snd (createPoll formData w)))"
    and "InsertPoll userId question options \<notin> set (requests w)"
  shows "set question \<inter> unsafeChars = {} \<and>
         (\<forall>opt \<in> set options. set opt \<inter> unsafeChars = {})"
  using assms sanitizeHtml_no_unsafe
  by (auto simp: createPoll_def insertPoll_def revalidatePath_def send_def Let_def
           split: sum.splits option.splits prod.splits)

lemma createPoll_markup_example:
  "fst (createPoll markupForm (exampleWorld (signedIn owner) [])) = None \<and>
   requests (snd (createPoll markupForm (exampleWorld (signedIn owner) []))) =
     [InsertPoll ''user123'' ''&lt;b&gt;Tea&lt;&#x2F;b&gt; or coffee?'' [''Tea'', ''Coffee''],
      RevalidatePath ''/polls'']"
  by (simp add: createPoll_def zod_defs trim_def isWhiteSpace_def sanitizeHtml_def
        insertPoll_def revalidatePath_def send_def example_defs form_defs Let_def)

text \<open>
  Claim C3 says that a question or option holding one of the characters
  \<open><\<close>, \<open>>\<close>, \<open>"\<close>, \<open>'\<close>, \<open>/\<close> reaches the store escaped, through
  \<^verbatim>\<open>createPoll\<close> and through \<^verbatim>\<open>updatePoll\<close>. \<^verbatim>\<open>createPoll\<close> does so (the two
  lemmas above); \<^verbatim>\<open>updatePoll\<close> never calls the sanitizer. Here the owner of the
  example poll updates its question to \<^verbatim>\<open><b>Tea</b> or coffee?\<close>: the call succeeds,
  and the update sent to the store, and the row it leaves, hold the raw markup.
\<close>

theorem updatePoll_stores_raw_markup:
  "fst (updatePoll examplePollId markupForm (exampleWorld (signedIn owner) [])) = None \<and>
   requests (snd (updatePoll examplePollId markupForm (exampleWorld (signedIn owner) []))) =
     [UpdatePoll examplePollId ''user123'' ''<b>Tea</b> or coffee?'' [''Tea'', ''Coffee'']] \<and>
   map poll_question (polls (snd (updatePoll examplePollId markupForm
     (exampleWorld (signedIn owner) [])))) = [''<b>Tea</b> or coffee?''] \<and>
   CHR ''<'' \<in> set ''<b>Tea</b> or coffee?'' \<inter> unsafeChars"
  by (simp add: updatePoll_def updatePolls_def send_def example_defs form_defs unsafeChars_def
        Let_def)

section \<open>A question longer than 500 characters\<close>

text \<open>\<^verbatim>\<open>createPoll\<close> rejects every question longer than 500 characters with the
  schema's message, before the session is read or anything is sent.\<close>

lemma createPoll_long_question:
  assumes "formData_get formData ''question'' = Some q" and "500 < length q"
  shows "createPoll formData w = (Some ''Question must be less than 500 characters'', w)"
  using assms by (auto simp: createPoll_def pollSchema_safeParse_def zod_question_def)

text \<open>
  Claim C4 says that \<^verbatim>\<open>createPoll\<close> and \<^verbatim>\<open>updatePoll\<close> both reject a question
  longer than 500 characters and write nothing. \<^verbatim>\<open>createPoll\<close> does (the lemma
  above); \<^verbatim>\<open>updatePoll\<close> never calls the schema. Here the owner of the example poll
  updates its question to 501 characters: the call succeeds and the row is rewritten.
\<close>

theorem updatePoll_accepts_long_question:
  "500 < length (replicate 501 (CHR ''a'')) \<and>
   fst (updatePoll examplePollId longForm (exampleWorld (signedIn owner) [])) = None \<and>
   requests (snd (updatePoll examplePollId longForm (exampleWorld (signedIn owner) []))) =
     [UpdatePoll examplePollId ''user123'' (replicate 501 (CHR ''a'')) [''Tea'', ''Coffee'']] \<and>
   map poll_question (polls (snd (updatePoll examplePollId longForm
     (exampleWorld (signedIn owner) [])))) = [replicate 501 (CHR ''a'')]"
  by (simp add: updatePoll_def updatePolls_def send_def example_defs form_defs Let_def)

section \<open>The sanitizer is idempotent\<close>

text \<open>
  Claim C5 says that the sanitizer is not idempotent: that some string is escaped
  further by a second application. The code escapes the five characters and leaves
  \<open>&\<close> alone, so the output of one application holds none of the five and a second
  application finds nothing to replace. The claim is false of the code: no string
  is changed by the second application.
\<close>

theorem sanitizeHtml_not_idempotent_counterexample:
  "\<not> (\<exists>s. sanitizeHtml (sanitizeHtml s) \<noteq> sanitizeHtml s)"
  using sanitizeHtml_fixed [OF sanitizeHtml_no_unsafe] by simp

text \<open>
  Claim C5, as amended: the sanitizer is idempotent; for every string, applying
  \<^verbatim>\<open>sanitizeHtml\<close> twice gives the result of applying it once.
\<close>

theorem sanitizeHtml_idempotent: "sanitizeHtml (sanitizeHtml s) = sanitizeHtml s"
  by (rule sanitizeHtml_fixed) (rule sanitizeHtml_no_unsafe)

theorem sanitizeHtml_idempotent_witness:
  "sanitizeHtml (sanitizeHtml ''<a href=\"/x\">it's</a>'') =
     ''&lt;a href=&quot;&#x2F;x&quot;&gt;it&#x27;s&lt;&#x2F;a&gt;''"
  using sanitizeHtml_idempotent [of "''<a href=\"/x\">it's</a>''"]
  by (simp add: sanitizeHtml_def)

section \<open>An option index outside the poll's options\<close>

text \<open>
  Claim C6 says that every option index outside \<open>[0, options.length)\<close> of the existing
  poll, every negative index included, gets "Invalid option selected.". A negative
  index never reaches that test: the schema's \<^verbatim>\<open>min(0)\<close> rejects it first, with the
  validation library's message. On the example poll (two options) the index \<open>-1\<close> is
  answered with "Number must be greater than or equal to 0".
\<close>

theorem submitVote_negative_index_counterexample:
  "isUuid examplePollId \<and>
   filter (\<lambda>r. poll_id r = examplePollId) (polls (exampleWorld (signedIn owner) [])) =
     [examplePoll] \<and>
   length (poll_options examplePoll) = 2 \<and>
   number_less (Finite (- 1)) 0 \<and>
   submitVote examplePollId (Finite (- 1)) (exampleWorld (signedIn owner) []) =
     (Some ''Number must be greater than or equal to 0'', exampleWorld (signedIn owner) []) \<and>
   fst (submitVote examplePollId (Finite (- 1)) (exampleWorld (signedIn owner) [])) \<noteq>
     Some ''Invalid option selected.''"
  by (simp add: submitVote_def zod_defs isUuid_def isHexDigit_def example_defs)

text \<open>
  Claim C6, as amended: for every vote request on an existing poll (the identifier is
  a UUID and the poll lookup finds exactly the row \<open>p\<close>), an integer option index at or
  above the number of options gets "Invalid option selected.", with the poll lookup
  as the only request and no vote row written; a negative option index is rejected
  by the schema before any store access, with the validator's message ("Number must be
  greater than or equal to 0" for an integer, "Expected integer, received float"
  otherwise), and the world is left as it was.
\<close>

theorem submitVote_index_out_of_range:
  assumes "isUuid pollId"
    and "failure w (SelectPoll pollId) = None"
    and "filter (\<lambda>r. poll_id r = pollId) (polls w) = [p]"
  shows "(isInteger optionIndex \<and>
          number_ge optionIndex (of_nat (length (poll_options p))) \<longrightarrow>
            fst (submitVote pollId optionIndex w) = Some ''Invalid option selected.'' \<and>
            requests (snd (submitVote pollId optionIndex w)) = requests w @ [SelectPoll pollId] \<and>
            votes (snd (submitVote pollId optionIndex w)) = votes w) \<and>
         (number_less optionIndex 0 \<longrightarrow>
            submitVote pollId optionIndex w =
              (Some (if isInteger optionIndex
                     then ''Number must be greater than or equal to 0''
                     else ''Expected integer, received float''), w))"
proof (intro conjI impI)
  assume range:
    "isInteger optionIndex \<and> number_ge optionIndex (of_nat (length (poll_options p)))"
  then have valid: "voteSchema_safeParse pollId optionIndex = Inr (pollId, optionIndex)"
    using assms(1) number_ge_not_less voteSchema_valid by blast
  have fetch: "selectPoll pollId w = (Inr p, send (SelectPoll pollId) w)"
    using assms(2,3) by (rule selectPoll_found)
  from range valid fetch
  show "fst (submitVote pollId optionIndex w) = Some ''Invalid option selected.''"
    and "requests (snd (submitVote pollId optionIndex w)) = requests w @ [SelectPoll pollId]"
    and "votes (snd (submitVote pollId optionIndex w)) = votes w"
    by (simp_all add: submitVote_def send_def)
next
  assume "number_less optionIndex 0"
  then show "submitVote pollId optionIndex w =
      (Some (if isInteger optionIndex then ''Number must be greater than or equal to 0''
             else ''Expected integer, received float''), w)"
    using assms(1) by (cases optionIndex) (auto simp: submitVote_def zod_defs)
qed

theorem submitVote_index_out_of_range_witness:
  "isUuid examplePollId \<and> isInteger (Finite 5) \<and>
   number_ge (Finite 5) (of_nat (length (poll_options examplePoll))) \<and>
   fst (submitVote examplePollId (Finite 5) (exampleWorld (signedIn owner) [])) =
     Some ''Invalid option selected.'' \<and>
   requests (snd (submitVote examplePollId (Finite 5) (exampleWorld (signedIn owner) []))) =
     [SelectPoll examplePollId] \<and>
   votes (snd (submitVote examplePollId (Finite 5) (exampleWorld (signedIn owner) []))) = [] \<and>
   number_less (Finite (- 3 / 2)) 0 \<and> \<not> isInteger (Finite (- 3 / 2)) \<and>
   submitVote examplePollId (Finite (- 3 / 2)) (exampleWorld (signedIn owner) []) =
     (Some ''Expected integer, received float'', exampleWorld (signedIn owner) [])"
proof -
  have f: "failure (exampleWorld (signedIn owner) []) (SelectPoll examplePollId) = None"
    by (simp add: exampleWorld_def)
  have r: "filter (\<lambda>r. poll_id r = examplePollId) (polls (exampleWorld (signedIn owner) [])) =
      [examplePoll]"
    by (simp add: exampleWorld_def examplePoll_def)
  have i: "\<not> isInteger (Finite (- 3 / 2))"
    by code_simp
  show ?thesis
    using isUuid_examplePollId i
      submitVote_index_out_of_range [OF isUuid_examplePollId f r, of "Finite 5"]
      submitVote_index_out_of_range [OF isUuid_examplePollId f r, of "Finite (- 3 / 2)"]
    by (simp add: exampleWorld_def examplePoll_def)
qed

section \<open>Votes on a malformed poll identifier\<close>

text \<open>
  Claim C7: for every poll identifier that is not a syntactically valid UUID,
  \<^verbatim>\<open>submitVote\<close> returns the validation error "Invalid poll ID" before any store
  access: the world is returned as it was, so no poll lookup, no vote query and no
  insert was sent. The identifier is the first key of the schema, so its message is
  the first of the issues whatever the option index is.
\<close>

theorem submitVote_invalid_pollId:
  "\<not> isUuid pollId \<Longrightarrow> submitVote pollId optionIndex w = (Some ''Invalid poll ID'', w)"
  by (simp add: submitVote_def voteSchema_safeParse_def zod_pollId_def)

theorem submitVote_invalid_pollId_witness:
  "\<not> isUuid ''not-a-uuid'' \<and>
   submitVote ''not-a-uuid'' (Finite 0) (exampleWorld (signedIn owner) []) =
     (Some ''Invalid poll ID'', exampleWorld (signedIn owner) [])"
proof -
  have h: "\<not> isUuid ''not-a-uuid''"
    by (simp add: isUuid_def isHexDigit_def)
  show ?thesis
    using h submitVote_invalid_pollId [OF h, of "Finite 0" "exampleWorld (signedIn owner) []"]
    by simp
qed

section \<open>An update by someone who does not own the poll\<close>

text \<open>
  Claim C8: for every \<^verbatim>\<open>updatePoll\<close> call by an authenticated identity whose id
  differs from the owner id of the poll (every row with that identifier belongs to
  someone else), with a payload that passes the action's check (a question that is
  not empty, two options or more), the call returns no error while the rows of
  \<^verbatim>\<open>polls\<close> are as they were: the update is sent with the filter on the caller's id,
  the store finds no row to rewrite, and no denial is surfaced. The store is assumed
  to answer the update without an error of its own.
\<close>

theorem updatePoll_not_owner:
  assumes "auth_error (session w) = None" and "auth_user (session w) = Some u"
    and "formData_get formData ''question'' = Some q" and "q \<noteq> []"
    and "filterBoolean (formData_getAll formData ''options'') = options"
    and "2 \<le> length options"
    and "\<forall>r \<in> set (polls w). poll_id r = pollId \<longrightarrow> poll_user_id r \<noteq> user_id u"
    and "failure w (UpdatePoll pollId (user_id u) q options) = None"
  shows "fst (updatePoll pollId formData w) = None \<and>
         polls (snd (updatePoll pollId formData w)) = polls w \<and>
         requests (snd (updatePoll pollId formData w)) =
           requests w @ [UpdatePoll pollId (user_id u) q options]"
proof -
  have "map (\<lambda>r. if poll_id r = pollId \<and> poll_user_id r = user_id u
                  then r\<lparr>poll_question := q, poll_options := options\<rparr> else r) (polls w) =
        polls w"
    using assms(7) by (intro map_unchanged) auto
  then show ?thesis
    using assms(1-6,8) by (simp add: updatePoll_def updatePolls_def send_def)
qed

theorem updatePoll_not_owner_witness:
  "fst (updatePoll examplePollId markupForm (exampleWorld (signedIn stranger) [])) = None \<and>
   polls (snd (updatePoll examplePollId markupForm (exampleWorld (signedIn stranger) []))) =
     [examplePoll] \<and>
   requests (snd (updatePoll examplePollId markupForm (exampleWorld (signedIn stranger) []))) =
     [UpdatePoll examplePollId ''user456'' ''<b>Tea</b> or coffee?'' [''Tea'', ''Coffee'']]"
  using updatePoll_not_owner
    [of "exampleWorld (signedIn stranger) []" stranger markupForm "''<b>Tea</b> or coffee?''"
        "[''Tea'', ''Coffee'']" examplePollId]
  by (simp add: example_defs form_defs)

section \<open>A session lookup that fails\<close>

text \<open>
  Claim C9 says that every operation, the vote included, returns the message of a
  failed session lookup and writes nothing. \<^verbatim>\<open>submitVote\<close> reads only
  \<^verbatim>\<open>data.user\<close> of the lookup: when the lookup fails with no user, the vote is
  recorded as an anonymous one and the call returns no error.
\<close>

theorem submitVote_lookup_error_counterexample:
  "auth_error (session (exampleWorld (lookupFailed ''Auth session missing!'') [])) =
     Some ''Auth session missing!'' \<and>
   fst (submitVote examplePollId (Finite 1)
          (exampleWorld (lookupFailed ''Auth session missing!'') [])) = None \<and>
   votes (snd (submitVote examplePollId (Finite 1)
          (exampleWorld (lookupFailed ''Auth session missing!'') []))) =
     [\<lparr>vote_poll_id = examplePollId, vote_user_id = None, vote_option_index = Finite 1\<rparr>] \<and>
   requests (snd (submitVote examplePollId (Finite 1)
          (exampleWorld (lookupFailed ''Auth session missing!'') []))) =
     [SelectPoll examplePollId, InsertVote examplePollId None (Finite 1)]"
  by (simp add: submitVote_def zod_defs isUuid_def isHexDigit_def example_defs store_defs)

text \<open>
  Claim C9, as amended: if the session lookup returns an error, \<^verbatim>\<open>deletePoll\<close>
  returns that error's message verbatim and sends nothing; \<^verbatim>\<open>createPoll\<close> and
  \<^verbatim>\<open>updatePoll\<close> send nothing either, and return that message verbatim whenever
  the payload passes the check that each of them runs before the lookup (the schema
  for create, a non-empty question and two options for update). \<^verbatim>\<open>submitVote\<close>
  does not read the lookup's error: its result, the votes and the requests are those
  of the same call with the error cleared.
\<close>

theorem lookup_error_surfaced:
  assumes "auth_error (session w) = Some msg"
  shows "deletePoll pollId w = (Some msg, w) \<and>
         snd (createPoll formData w) = w \<and>
         (pollSchema_safeParse (formData_get formData ''question'')
            (filterBoolean (formData_getAll formData ''options'')) = Inr parsed \<longrightarrow>
          createPoll formData w = (Some msg, w)) \<and>
         snd (updatePoll pollId formData w) = w \<and>
         (formData_get formData ''question'' = Some q \<and> q \<noteq> [] \<and>
          2 \<le> length (filterBoolean (formData_getAll formData ''options'')) \<longrightarrow>
          updatePoll pollId formData w = (Some msg, w)) \<and>
         fst (submitVote pollId optionIndex w) =
           fst (submitVote pollId optionIndex (w\<lparr>session := (session w)\<lparr>auth_error := None\<rparr>\<rparr>)) \<and>
         votes (snd (submitVote pollId optionIndex w)) =
           votes (snd (submitVote pollId optionIndex
             (w\<lparr>session := (session w)\<lparr>auth_error := None\<rparr>\<rparr>))) \<and>
         requests (snd (submitVote pollId optionIndex w)) =
           requests (snd (submitVote pollId optionIndex
             (w\<lparr>session := (session w)\<lparr>auth_error := None\<rparr>\<rparr>)))"
proof -
  have actions: "deletePoll pollId w = (Some msg, w) \<and>
         snd (createPoll formData w) = w \<and>
         (pollSchema_safeParse (formData_get formData ''question'')
            (filterBoolean (formData_getAll formData ''options'')) = Inr parsed \<longrightarrow>
          createPoll formData w = (Some msg, w)) \<and>
         snd (updatePoll pollId formData w) = w \<and>
         (formData_get formData ''question'' = Some q \<and> q \<noteq> [] \<and>
          2 \<le> length (filterBoolean (formData_getAll formData ''options'')) \<longrightarrow>
          updatePoll pollId formData w = (Some msg, w))"
    using assms
    by (auto simp: deletePoll_def createPoll_def updatePoll_def Let_def
             split: sum.splits option.splits prod.splits)
  have vote: "fst (submitVote pollId optionIndex w) =
           fst (submitVote pollId optionIndex (w\<lparr>session := (session w)\<lparr>auth_error := None\<rparr>\<rparr>)) \<and>
         votes (snd (submitVote pollId optionIndex w)) =
           votes (snd (submitVote pollId optionIndex
             (w\<lparr>session := (session w)\<lparr>auth_error := None\<rparr>\<rparr>))) \<and>
         requests (snd (submitVote pollId optionIndex w)) =
           requests (snd (submitVote pollId optionIndex
             (w\<lparr>session := (session w)\<lparr>auth_error := None\<rparr>\<rparr>)))"
    by (simp add: submitVote_def store_defs Let_def
          split: sum.splits option.splits prod.splits list.splits)
  from actions vote show ?thesis by simp
qed

theorem lookup_error_surfaced_witness:
  "deletePoll examplePollId (exampleWorld (lookupFailed ''Auth session missing!'') []) =
     (Some ''Auth session missing!'', exampleWorld (lookupFailed ''Auth session missing!'') []) \<and>
   createPoll markupForm (exampleWorld (lookupFailed ''Auth session missing!'') []) =
     (Some ''Auth session missing!'', exampleWorld (lookupFailed ''Auth session missing!'') []) \<and>
   updatePoll examplePollId markupForm (exampleWorld (lookupFailed ''Auth session missing!'') []) =
     (Some ''Auth session missing!'', exampleWorld (lookupFailed ''Auth session missing!'') [])"
proof -
  have parse: "pollSchema_safeParse (formData_get markupForm ''question'')
      (filterBoolean (formData_getAll markupForm ''options'')) =
      Inr (''<b>Tea</b> or coffee?'', [''Tea'', ''Coffee''])"
    by (simp add: zod_defs form_defs markupForm_def trim_def isWhiteSpace_def)
  have sess: "auth_error (session (exampleWorld (lookupFailed ''Auth session missing!'') [])) =
      Some ''Auth session missing!''"
    by (simp add: exampleWorld_def lookupFailed_def)
  show ?thesis
    using parse
      lookup_error_surfaced
        [OF sess, of examplePollId markupForm "(''<b>Tea</b> or coffee?'', [''Tea'', ''Coffee''])"
           "''<b>Tea</b> or coffee?''"]
    by (simp add: form_defs markupForm_def)
qed

section \<open>Deleting a poll that does not exist\<close>

text \<open>
  Claim C10: for every \<^verbatim>\<open>deletePoll\<close> call by an authenticated identity where no
  poll has the given identifier, the ownership fetch fails, the call returns
  "Poll not found." and no delete is sent to the store: the fetch is the only
  request, and the rows of \<^verbatim>\<open>polls\<close> are as they were.
\<close>

theorem deletePoll_not_found:
  assumes "auth_error (session w) = None" and "auth_user (session w) = Some u"
    and "\<forall>r \<in> set (polls w). poll_id r \<noteq> pollId"
  shows "fst (deletePoll pollId w) = Some ''Poll not found.'' \<and>
         requests (snd (deletePoll pollId w)) = requests w @ [SelectPoll pollId] \<and>
         polls (snd (deletePoll pollId w)) = polls w"
proof -
  from assms(3) obtain e where "selectPoll pollId w = (Inl e, send (SelectPoll pollId) w)"
    using selectPoll_absent by blast
  with assms(1,2) show ?thesis
    by (simp add: deletePoll_def send_def)
qed

theorem deletePoll_not_found_witness:
  "fst (deletePoll ''no-such-poll'' (exampleWorld (signedIn stranger) [])) =
     Some ''Poll not found.'' \<and>
   requests (snd (deletePoll ''no-such-poll'' (exampleWorld (signedIn stranger) []))) =
     [SelectPoll ''no-such-poll''] \<and>
   polls (snd (deletePoll ''no-such-poll'' (exampleWorld (signedIn stranger) []))) =
     [examplePoll]"
  using deletePoll_not_found
    [of "exampleWorld (signedIn stranger) []" stranger "''no-such-poll''"]
  by (simp add: example_defs)

end
